theory Spec2Isabelle
  imports Main "HOL-Library.Word"
begin

text \<open>
  The client SDK of the Friendly service: validated value types, one request executor, one
  function per endpoint. The repository holds the SDK twice, as package \<open>api\<close>
  (one file per endpoint group) and as the single-file package \<open>friendly\<close>; the two
  agree statement by statement, up to the names \<open>do\<close>/\<open>doRequest\<close> and
  \<open>url\<close>/\<open>endpoint\<close> and an unused parameter of \<open>UploadFile\<close>. The names
  here are those of package \<open>api\<close>.
\<close>

section \<open>Formatting: the part of \<open>fmt\<close> and \<open>strconv\<close> the SDK uses\<close>

text \<open>
  Go strings are byte sequences and \<open>len\<close> counts bytes; \<^typ>\<open>string\<close> is a list of
  8-bit characters and \<^const>\<open>length\<close> counts them.
\<close>

definition digit_char :: "nat \<Rightarrow> char" where
  "digit_char d =
     (if d = 0 then CHR ''0'' else if d = 1 then CHR ''1'' else if d = 2 then CHR ''2''
      else if d = 3 then CHR ''3'' else if d = 4 then CHR ''4'' else if d = 5 then CHR ''5''
      else if d = 6 then CHR ''6'' else if d = 7 then CHR ''7'' else if d = 8 then CHR ''8''
      else CHR ''9'')"

fun digits :: "nat \<Rightarrow> string" where
  "digits n = (if n < 10 then [digit_char n] else digits (n div 10) @ [digit_char (n mod 10)])"

declare digits.simps [simp del]

text \<open>The verb \<open>%d\<close> on a signed integer: base ten, a minus sign for negative values.\<close>

definition decimal :: "int \<Rightarrow> string" where
  "decimal i = (if i < 0 then CHR ''-'' # digits (nat (- i)) else digits (nat i))"

text \<open>
  A Go \<open>error\<close> is its message together with the error it wraps (\<open>%w\<close>), if any.
\<close>

datatype error = Error (Error_msg: string) (Unwrap: "error option")

datatype arg = S string | D int | W error

text \<open>
  One operand under one verb. The SDK only formats strings with \<open>%s\<close>, integers with
  \<open>%d\<close> and errors with \<open>%w\<close>. For any other pairing, for a missing operand and for
  operands left over, Go prints a marker; the markers are kept here, without the operand they
  would quote.
\<close>

fun format_arg :: "char \<Rightarrow> arg \<Rightarrow> string" where
  "format_arg v (S s) = (if v = CHR ''s'' then s else ''%!'' @ [v] @ ''(string)'')"
| "format_arg v (D i) = (if v = CHR ''d'' then decimal i else ''%!'' @ [v] @ ''(int)'')"
| "format_arg v (W e) =
     (if v = CHR ''w'' \<or> v = CHR ''s'' then Error_msg e else ''%!'' @ [v] @ ''(error)'')"

fun Sprintf :: "string \<Rightarrow> arg list \<Rightarrow> string" where
  "Sprintf [] [] = []"
| "Sprintf [] (a # as) = ''%!(EXTRA)''"
| "Sprintf [c] as =
     (if c = CHR ''%'' then ''%!(NOVERB)'' @ Sprintf [] as else c # Sprintf [] as)"
| "Sprintf (c # v # cs) as =
     (if c \<noteq> CHR ''%'' then c # Sprintf (v # cs) as
      else if v = CHR ''%'' then CHR ''%'' # Sprintf cs as
      else (case as of
              [] \<Rightarrow> ''%!'' @ [v] @ ''(MISSING)'' @ Sprintf cs []
            | a # as' \<Rightarrow> format_arg v a @ Sprintf cs as'))"

text \<open>
  \<open>fmt.Errorf\<close>: the formatted message, wrapping the error that stands under \<open>%w\<close>
  (the SDK never has more than one \<open>%w\<close> in a format).
\<close>

fun wrapped :: "string \<Rightarrow> arg list \<Rightarrow> error option" where
  "wrapped [] as = None"
| "wrapped [c] as = None"
| "wrapped (c # v # cs) as =
     (if c \<noteq> CHR ''%'' then wrapped (v # cs) as
      else if v = CHR ''%'' then wrapped cs as
      else (case as of
              [] \<Rightarrow> None
            | a # as' \<Rightarrow>
                (case a of
                   W e \<Rightarrow> if v = CHR ''w'' then Some e else wrapped cs as'
                 | _ \<Rightarrow> wrapped cs as')))"

definition Errorf :: "string \<Rightarrow> arg list \<Rightarrow> error" where
  "Errorf f as = Error (Sprintf f as) (wrapped f as)"

section \<open>Domain value types\<close>

text \<open>
  \<open>UserId\<close> and \<open>FileId\<close> are \<open>int64\<close>: 64-bit words read as signed by \<^const>\<open>sint\<close>.
  The string newtypes carry no invariant of their own in Go (any string converts), so they
  are synonyms of \<^typ>\<open>string\<close>. A slice is \<open>None\<close> when it is \<open>nil\<close>; a pointer
  likewise.
\<close>

type_synonym UserId = "64 word"
type_synonym UserAccessHash = string
type_synonym Token = string
type_synonym Nickname = string
type_synonym UserDescription = string
type_synonym Interest = string
type_synonym FriendToken = string
type_synonym FileId = "64 word"
type_synonym FileAccessHash = string
type_synonym 'a slice = "'a list option"

record Authorization =
  Authorization_Id :: UserId
  Authorization_AccessHash :: UserAccessHash
  Authorization_Token :: Token

record FileDescriptor =
  FileDescriptor_Id :: FileId
  FileDescriptor_AccessHash :: FileAccessHash

record UserDetails =
  UserDetails_Id :: UserId
  UserDetails_AccessHash :: UserAccessHash
  UserDetails_Nickname :: Nickname
  UserDetails_Description :: UserDescription
  UserDetails_Interests :: "Interest slice"
  UserDetails_Avatar :: "FileDescriptor option"

record NetworkDetails =
  NetworkDetails_Friends :: "UserDetails slice"

record FeedEntry =
  FeedEntry_IsExtendedNetwork :: bool
  FeedEntry_CommonFriends :: "UserDetails slice"
  FeedEntry_Details :: UserDetails

record FeedQueue =
  FeedQueue_Entries :: "FeedEntry slice"

subsection \<open>Validating constructors\<close>

definition NewNickname :: "string \<Rightarrow> error + Nickname" where
  "NewNickname s =
     (if length s > 256 then Inl (Errorf ''nickname too long: %d > 256'' [D (int (length s))])
      else Inr s)"

definition NewUserDescription :: "string \<Rightarrow> error + UserDescription" where
  "NewUserDescription s =
     (if length s > 1024 then
        Inl (Errorf ''description too long: %d > 1024'' [D (int (length s))])
      else Inr s)"

definition NewInterest :: "string \<Rightarrow> error + Interest" where
  "NewInterest s =
     (if length s > 64 then Inl (Errorf ''interest too long: %d > 64'' [D (int (length s))])
      else Inr s)"

definition NewToken :: "string \<Rightarrow> error + Token" where
  "NewToken s =
     (if length s \<noteq> 256 then
        Inl (Errorf ''token must be 256 characters, got %d'' [D (int (length s))])
      else Inr s)"

definition NewUserAccessHash :: "string \<Rightarrow> error + UserAccessHash" where
  "NewUserAccessHash s =
     (if length s \<noteq> 256 then
        Inl (Errorf ''access hash must be 256 characters, got %d'' [D (int (length s))])
      else Inr s)"

definition NewFileAccessHash :: "string \<Rightarrow> error + FileAccessHash" where
  "NewFileAccessHash s =
     (if length s \<noteq> 256 then
        Inl (Errorf ''file access hash must be 256 characters, got %d'' [D (int (length s))])
      else Inr s)"

definition NewFriendToken :: "string \<Rightarrow> error + FriendToken" where
  "NewFriendToken s =
     (if length s \<noteq> 256 then
        Inl (Errorf ''friend token must be 256 characters, got %d'' [D (int (length s))])
      else Inr s)"

section \<open>JSON values and the struct tags\<close>

text \<open>
  \<open>encoding/json\<close> is the standard library, not this repository. Its text syntax
  (rendering and parsing) is taken as a parameter further down; what the SDK fixes, through
  its struct declarations and their \<open>json:"..."\<close> tags, is the mapping between Go values
  and JSON values, which is modelled here. An object keeps its members in order, duplicates
  included. A number is either an integer literal or any other literal (with a fraction or
  an exponent), kept as text.
\<close>

datatype json =
    JNull
  | JBool bool
  | JInt int
  | JFloat string
  | JString string
  | JArray "json list"
  | JObject "(string \<times> json) list"

subsection \<open>Encoding (what \<open>json.Marshal\<close> builds from a value)\<close>

definition marshal_slice :: "('a \<Rightarrow> json) \<Rightarrow> 'a slice \<Rightarrow> json" where
  "marshal_slice f s = (case s of None \<Rightarrow> JNull | Some xs \<Rightarrow> JArray (map f xs))"

definition marshal_ptr :: "('a \<Rightarrow> json) \<Rightarrow> 'a option \<Rightarrow> json" where
  "marshal_ptr f p = (case p of None \<Rightarrow> JNull | Some v \<Rightarrow> f v)"

definition marshal_int64 :: "64 word \<Rightarrow> json" where
  "marshal_int64 w = JInt (sint w)"

definition marshal_FileDescriptor :: "FileDescriptor \<Rightarrow> json" where
  "marshal_FileDescriptor d =
     JObject [(''id'', marshal_int64 (FileDescriptor_Id d)),
              (''accessHash'', JString (FileDescriptor_AccessHash d))]"

definition marshal_UserDetails :: "UserDetails \<Rightarrow> json" where
  "marshal_UserDetails u =
     JObject [(''id'', marshal_int64 (UserDetails_Id u)),
              (''accessHash'', JString (UserDetails_AccessHash u)),
              (''nickname'', JString (UserDetails_Nickname u)),
              (''description'', JString (UserDetails_Description u)),
              (''interests'', marshal_slice JString (UserDetails_Interests u)),
              (''avatar'', marshal_ptr marshal_FileDescriptor (UserDetails_Avatar u))]"

definition marshal_FeedEntry :: "FeedEntry \<Rightarrow> json" where
  "marshal_FeedEntry e =
     JObject [(''isExtendedNetwork'', JBool (FeedEntry_IsExtendedNetwork e)),
              (''commonFriends'', marshal_slice marshal_UserDetails (FeedEntry_CommonFriends e)),
              (''details'', marshal_UserDetails (FeedEntry_Details e))]"

definition marshal_FeedQueue :: "FeedQueue \<Rightarrow> json" where
  "marshal_FeedQueue q =
     JObject [(''entries'', marshal_slice marshal_FeedEntry (FeedQueue_Entries q))]"

subsection \<open>Decoding (what \<open>json.Unmarshal\<close> stores into a value)\<close>

text \<open>
  Every decoder takes the JSON value and the current content of the destination and returns
  the new content, or \<open>None\<close> where the library reports an \<open>UnmarshalTypeError\<close>.
  \<open>null\<close> leaves a scalar or a struct as it is and sets a slice or a pointer to
  \<open>nil\<close>. A member of an object is matched to a field by its tag, ignoring case; members
  are stored in their order, so a later duplicate overwrites; an unknown member is skipped.
  An array replaces the slice, each element decoded from the zero value (the documented
  behaviour). Where two tags of one struct could match a key the library prefers the exact
  one; no struct of the SDK has two tags that differ only in case. Every decode of the SDK
  stores into a freshly declared variable, so the current content is a zero value at the
  top and matters only below a repeated key.
\<close>

text \<open>A lower-case ASCII letter loses 32, that is bit 5.\<close>

definition ascii_upper :: "char \<Rightarrow> char" where
  "ascii_upper c =
     (let n = (of_char c :: nat) in
      if 97 \<le> n \<and> n \<le> 122 then
        Char (digit0 c) (digit1 c) (digit2 c) (digit3 c) (digit4 c) False (digit6 c) (digit7 c)
      else c)"

text \<open>
  The library folds a key with Unicode simple folding. Two code points outside ASCII fold
  to an ASCII letter: U+212A (bytes E2 84 AA) to K and U+017F (bytes C5 BF) to S; all tags of
  the SDK are ASCII, so no other code point can take part in a match.
\<close>

fun foldName :: "string \<Rightarrow> string" where
  "foldName [] = []"
| "foldName (c # cs) =
     (if c = CHR 0xE2 \<and> take 2 cs = [CHR 0x84, CHR 0xAA] then CHR ''K'' # foldName (drop 2 cs)
      else if c = CHR 0xC5 \<and> take 1 cs = [CHR 0xBF] then CHR ''S'' # foldName (drop 1 cs)
      else ascii_upper c # foldName cs)"

definition tag_match :: "string \<Rightarrow> string \<Rightarrow> bool" where
  "tag_match key tag = (foldName key = foldName tag)"

definition unmarshal_int64 :: "json \<Rightarrow> 64 word \<Rightarrow> 64 word option" where
  "unmarshal_int64 j cur =
     (case j of
        JNull \<Rightarrow> Some cur
      | JInt i \<Rightarrow> if - (2 ^ 63) \<le> i \<and> i < 2 ^ 63 then Some (word_of_int i) else None
      | _ \<Rightarrow> None)"

definition unmarshal_string :: "json \<Rightarrow> string \<Rightarrow> string option" where
  "unmarshal_string j cur =
     (case j of JNull \<Rightarrow> Some cur | JString s \<Rightarrow> Some s | _ \<Rightarrow> None)"

definition unmarshal_bool :: "json \<Rightarrow> bool \<Rightarrow> bool option" where
  "unmarshal_bool j cur =
     (case j of JNull \<Rightarrow> Some cur | JBool b \<Rightarrow> Some b | _ \<Rightarrow> None)"

definition unmarshal_slice ::
  "(json \<Rightarrow> 'a \<Rightarrow> 'a option) \<Rightarrow> 'a \<Rightarrow> json \<Rightarrow> 'a slice \<Rightarrow> 'a slice option" where
  "unmarshal_slice elem zero j cur =
     (case j of
        JNull \<Rightarrow> Some None
      | JArray xs \<Rightarrow> map_option Some (those (map (\<lambda>x. elem x zero) xs))
      | _ \<Rightarrow> None)"

definition unmarshal_ptr ::
  "(json \<Rightarrow> 'a \<Rightarrow> 'a option) \<Rightarrow> 'a \<Rightarrow> json \<Rightarrow> 'a option \<Rightarrow> 'a option option" where
  "unmarshal_ptr elem zero j cur =
     (case j of
        JNull \<Rightarrow> Some None
      | _ \<Rightarrow> map_option Some (elem j (case cur of None \<Rightarrow> zero | Some v \<Rightarrow> v)))"

fun unmarshal_members ::
  "(string \<Rightarrow> json \<Rightarrow> 'a \<Rightarrow> 'a option) \<Rightarrow> (string \<times> json) list \<Rightarrow> 'a \<Rightarrow> 'a option" where
  "unmarshal_members field [] v = Some v"
| "unmarshal_members field ((k, x) # ms) v =
     (case field k x v of None \<Rightarrow> None | Some v' \<Rightarrow> unmarshal_members field ms v')"

definition unmarshal_struct ::
  "(string \<Rightarrow> json \<Rightarrow> 'a \<Rightarrow> 'a option) \<Rightarrow> json \<Rightarrow> 'a \<Rightarrow> 'a option" where
  "unmarshal_struct field j v =
     (case j of JNull \<Rightarrow> Some v | JObject ms \<Rightarrow> unmarshal_members field ms v | _ \<Rightarrow> None)"

definition zero_FileDescriptor :: FileDescriptor where
  "zero_FileDescriptor = \<lparr>FileDescriptor_Id = 0, FileDescriptor_AccessHash = ''''\<rparr>"

definition zero_UserDetails :: UserDetails where
  "zero_UserDetails =
     \<lparr>UserDetails_Id = 0, UserDetails_AccessHash = '''', UserDetails_Nickname = '''',
      UserDetails_Description = '''', UserDetails_Interests = None, UserDetails_Avatar = None\<rparr>"

definition zero_NetworkDetails :: NetworkDetails where
  "zero_NetworkDetails = \<lparr>NetworkDetails_Friends = None\<rparr>"

definition zero_FeedEntry :: FeedEntry where
  "zero_FeedEntry =
     \<lparr>FeedEntry_IsExtendedNetwork = False, FeedEntry_CommonFriends = None,
      FeedEntry_Details = zero_UserDetails\<rparr>"

definition zero_FeedQueue :: FeedQueue where
  "zero_FeedQueue = \<lparr>FeedQueue_Entries = None\<rparr>"

definition field_FileDescriptor :: "string \<Rightarrow> json \<Rightarrow> FileDescriptor \<Rightarrow> FileDescriptor option" where
  "field_FileDescriptor k x d =
     (if tag_match k ''id'' then
        map_option (\<lambda>v. d\<lparr>FileDescriptor_Id := v\<rparr>) (unmarshal_int64 x (FileDescriptor_Id d))
      else if tag_match k ''accessHash'' then
        map_option (\<lambda>v. d\<lparr>FileDescriptor_AccessHash := v\<rparr>)
          (unmarshal_string x (FileDescriptor_AccessHash d))
      else Some d)"

definition unmarshal_FileDescriptor :: "json \<Rightarrow> FileDescriptor \<Rightarrow> FileDescriptor option" where
  "unmarshal_FileDescriptor = unmarshal_struct field_FileDescriptor"

definition field_UserDetails :: "string \<Rightarrow> json \<Rightarrow> UserDetails \<Rightarrow> UserDetails option" where
  "field_UserDetails k x u =
     (if tag_match k ''id'' then
        map_option (\<lambda>v. u\<lparr>UserDetails_Id := v\<rparr>) (unmarshal_int64 x (UserDetails_Id u))
      else if tag_match k ''accessHash'' then
        map_option (\<lambda>v. u\<lparr>UserDetails_AccessHash := v\<rparr>)
          (unmarshal_string x (UserDetails_AccessHash u))
      else if tag_match k ''nickname'' then
        map_option (\<lambda>v. u\<lparr>UserDetails_Nickname := v\<rparr>)
          (unmarshal_string x (UserDetails_Nickname u))
      else if tag_match k ''description'' then
        map_option (\<lambda>v. u\<lparr>UserDetails_Description := v\<rparr>)
          (unmarshal_string x (UserDetails_Description u))
      else if tag_match k ''interests'' then
        map_option (\<lambda>v. u\<lparr>UserDetails_Interests := v\<rparr>)
          (unmarshal_slice unmarshal_string '''' x (UserDetails_Interests u))
      else if tag_match k ''avatar'' then
        map_option (\<lambda>v. u\<lparr>UserDetails_Avatar := v\<rparr>)
          (unmarshal_ptr unmarshal_FileDescriptor zero_FileDescriptor x (UserDetails_Avatar u))
      else Some u)"

definition unmarshal_UserDetails :: "json \<Rightarrow> UserDetails \<Rightarrow> UserDetails option" where
  "unmarshal_UserDetails = unmarshal_struct field_UserDetails"

definition field_NetworkDetails :: "string \<Rightarrow> json \<Rightarrow> NetworkDetails \<Rightarrow> NetworkDetails option" where
  "field_NetworkDetails k x n =
     (if tag_match k ''friends'' then
        map_option (\<lambda>v. n\<lparr>NetworkDetails_Friends := v\<rparr>)
          (unmarshal_slice unmarshal_UserDetails zero_UserDetails x (NetworkDetails_Friends n))
      else Some n)"

definition unmarshal_NetworkDetails :: "json \<Rightarrow> NetworkDetails \<Rightarrow> NetworkDetails option" where
  "unmarshal_NetworkDetails = unmarshal_struct field_NetworkDetails"

definition field_FeedEntry :: "string \<Rightarrow> json \<Rightarrow> FeedEntry \<Rightarrow> FeedEntry option" where
  "field_FeedEntry k x e =
     (if tag_match k ''isExtendedNetwork'' then
        map_option (\<lambda>v. e\<lparr>FeedEntry_IsExtendedNetwork := v\<rparr>)
          (unmarshal_bool x (FeedEntry_IsExtendedNetwork e))
      else if tag_match k ''commonFriends'' then
        map_option (\<lambda>v. e\<lparr>FeedEntry_CommonFriends := v\<rparr>)
          (unmarshal_slice unmarshal_UserDetails zero_UserDetails x (FeedEntry_CommonFriends e))
      else if tag_match k ''details'' then
        map_option (\<lambda>v. e\<lparr>FeedEntry_Details := v\<rparr>)
          (unmarshal_UserDetails x (FeedEntry_Details e))
      else Some e)"

definition unmarshal_FeedEntry :: "json \<Rightarrow> FeedEntry \<Rightarrow> FeedEntry option" where
  "unmarshal_FeedEntry = unmarshal_struct field_FeedEntry"

definition field_FeedQueue :: "string \<Rightarrow> json \<Rightarrow> FeedQueue \<Rightarrow> FeedQueue option" where
  "field_FeedQueue k x q =
     (if tag_match k ''entries'' then
        map_option (\<lambda>v. q\<lparr>FeedQueue_Entries := v\<rparr>)
          (unmarshal_slice unmarshal_FeedEntry zero_FeedEntry x (FeedQueue_Entries q))
      else Some q)"

definition unmarshal_FeedQueue :: "json \<Rightarrow> FeedQueue \<Rightarrow> FeedQueue option" where
  "unmarshal_FeedQueue = unmarshal_struct field_FeedQueue"

subsection \<open>Request and response structs of the endpoints\<close>

record generateRequest =
  generateRequest_Nickname :: Nickname
  generateRequest_Description :: UserDescription
  generateRequest_Interests :: "Interest slice"
  generateRequest_Avatar :: "FileDescriptor option"

record generateResponse =
  generateResponse_Id :: UserId
  generateResponse_AccessHash :: UserAccessHash
  generateResponse_Token :: Token

record generateFriendTokenResponse =
  generateFriendTokenResponse_Token :: FriendToken

record addFriendRequest =
  addFriendRequest_Token :: FriendToken
  addFriendRequest_UserId :: UserId

record addFriendResponse =
  addFriendResponse_Type :: string

record friendRequestRequest =
  friendRequestRequest_UserId :: UserId
  friendRequestRequest_AccessHash :: UserAccessHash

record uploadFileResponse =
  uploadFileResponse_Id :: FileId
  uploadFileResponse_AccessHash :: FileAccessHash

definition marshal_generateRequest :: "generateRequest \<Rightarrow> json" where
  "marshal_generateRequest r =
     JObject [(''nickname'', JString (generateRequest_Nickname r)),
              (''description'', JString (generateRequest_Description r)),
              (''interests'', marshal_slice JString (generateRequest_Interests r)),
              (''avatar'', marshal_ptr marshal_FileDescriptor (generateRequest_Avatar r))]"

definition marshal_addFriendRequest :: "addFriendRequest \<Rightarrow> json" where
  "marshal_addFriendRequest r =
     JObject [(''token'', JString (addFriendRequest_Token r)),
              (''userId'', marshal_int64 (addFriendRequest_UserId r))]"

definition marshal_friendRequestRequest :: "friendRequestRequest \<Rightarrow> json" where
  "marshal_friendRequestRequest r =
     JObject [(''userId'', marshal_int64 (friendRequestRequest_UserId r)),
              (''userAccessHash'', JString (friendRequestRequest_AccessHash r))]"

definition zero_generateResponse :: generateResponse where
  "zero_generateResponse =
     \<lparr>generateResponse_Id = 0, generateResponse_AccessHash = '''', generateResponse_Token = ''''\<rparr>"

definition field_generateResponse ::
  "string \<Rightarrow> json \<Rightarrow> generateResponse \<Rightarrow> generateResponse option" where
  "field_generateResponse k x g =
     (if tag_match k ''id'' then
        map_option (\<lambda>v. g\<lparr>generateResponse_Id := v\<rparr>) (unmarshal_int64 x (generateResponse_Id g))
      else if tag_match k ''accessHash'' then
        map_option (\<lambda>v. g\<lparr>generateResponse_AccessHash := v\<rparr>)
          (unmarshal_string x (generateResponse_AccessHash g))
      else if tag_match k ''token'' then
        map_option (\<lambda>v. g\<lparr>generateResponse_Token := v\<rparr>)
          (unmarshal_string x (generateResponse_Token g))
      else Some g)"

definition unmarshal_generateResponse :: "json \<Rightarrow> generateResponse \<Rightarrow> generateResponse option" where
  "unmarshal_generateResponse = unmarshal_struct field_generateResponse"

definition zero_generateFriendTokenResponse :: generateFriendTokenResponse where
  "zero_generateFriendTokenResponse = \<lparr>generateFriendTokenResponse_Token = ''''\<rparr>"

definition field_generateFriendTokenResponse ::
  "string \<Rightarrow> json \<Rightarrow> generateFriendTokenResponse \<Rightarrow> generateFriendTokenResponse option" where
  "field_generateFriendTokenResponse k x g =
     (if tag_match k ''token'' then
        map_option (\<lambda>v. g\<lparr>generateFriendTokenResponse_Token := v\<rparr>)
          (unmarshal_string x (generateFriendTokenResponse_Token g))
      else Some g)"

definition unmarshal_generateFriendTokenResponse ::
  "json \<Rightarrow> generateFriendTokenResponse \<Rightarrow> generateFriendTokenResponse option" where
  "unmarshal_generateFriendTokenResponse = unmarshal_struct field_generateFriendTokenResponse"

definition zero_addFriendResponse :: addFriendResponse where
  "zero_addFriendResponse = \<lparr>addFriendResponse_Type = ''''\<rparr>"

definition field_addFriendResponse ::
  "string \<Rightarrow> json \<Rightarrow> addFriendResponse \<Rightarrow> addFriendResponse option" where
  "field_addFriendResponse k x a =
     (if tag_match k ''type'' then
        map_option (\<lambda>v. a\<lparr>addFriendResponse_Type := v\<rparr>)
          (unmarshal_string x (addFriendResponse_Type a))
      else Some a)"

definition unmarshal_addFriendResponse :: "json \<Rightarrow> addFriendResponse \<Rightarrow> addFriendResponse option" where
  "unmarshal_addFriendResponse = unmarshal_struct field_addFriendResponse"

definition zero_uploadFileResponse :: uploadFileResponse where
  "zero_uploadFileResponse = \<lparr>uploadFileResponse_Id = 0, uploadFileResponse_AccessHash = ''''\<rparr>"

definition field_uploadFileResponse ::
  "string \<Rightarrow> json \<Rightarrow> uploadFileResponse \<Rightarrow> uploadFileResponse option" where
  "field_uploadFileResponse k x u =
     (if tag_match k ''id'' then
        map_option (\<lambda>v. u\<lparr>uploadFileResponse_Id := v\<rparr>)
          (unmarshal_int64 x (uploadFileResponse_Id u))
      else if tag_match k ''accessHash'' then
        map_option (\<lambda>v. u\<lparr>uploadFileResponse_AccessHash := v\<rparr>)
          (unmarshal_string x (uploadFileResponse_AccessHash u))
      else Some u)"

definition unmarshal_uploadFileResponse ::
  "json \<Rightarrow> uploadFileResponse \<Rightarrow> uploadFileResponse option" where
  "unmarshal_uploadFileResponse = unmarshal_struct field_uploadFileResponse"

section \<open>The standard library and the transport, as parameters\<close>

text \<open>
  What the SDK calls outside itself is a parameter of the model: the text syntax of JSON
  (\<open>json.Marshal\<close> renders a value, \<open>json.Unmarshal\<close> parses a whole text, a
  \<open>json.Decoder\<close> parses the next value of a stream), the error the library reports when
  a value does not fit the Go type, the checks of \<open>http.NewRequest\<close> on the method and
  the URL, and the multipart writer. The server and the network are the \<open>http\<close> field of
  the client: what \<open>http.Client.Do\<close> returns for a request. The 30 second timeout is a
  transport error like any other.
\<close>

record stdlib =
  json_Marshal :: "json \<Rightarrow> error + string"
  json_Unmarshal :: "string \<Rightarrow> error + json"
  json_Decode :: "string \<Rightarrow> error + json"
  json_UnmarshalTypeError :: "json \<Rightarrow> error"
  http_NewRequest :: "string \<Rightarrow> string \<Rightarrow> error option"
  multipart_CreateFormFile :: "string \<Rightarrow> string \<Rightarrow> error option"
  multipart_Close :: "string \<Rightarrow> string \<Rightarrow> string \<Rightarrow> error + (string \<times> string)"

record request =
  Request_Method :: string
  Request_URL :: string
  Request_Header :: "string \<rightharpoonup> string"
  Request_Body :: "string option"

record response =
  Response_StatusCode :: int
  Response_Body :: string

record Client =
  url :: string
  http :: "request \<Rightarrow> error + response"

abbreviation StatusOK :: int where "StatusOK \<equiv> 200"
abbreviation StatusUnauthorized :: int where "StatusUnauthorized \<equiv> 401"
abbreviation StatusNotFound :: int where "StatusNotFound \<equiv> 404"

text \<open>\<open>json.Unmarshal(data, &v)\<close> and \<open>json.NewDecoder(body).Decode(&v)\<close>.\<close>

definition Unmarshal ::
  "stdlib \<Rightarrow> (json \<Rightarrow> 'a \<Rightarrow> 'a option) \<Rightarrow> 'a \<Rightarrow> string \<Rightarrow> error + 'a" where
  "Unmarshal L dec v data =
     (case json_Unmarshal L data of
        Inl err \<Rightarrow> Inl err
      | Inr j \<Rightarrow> (case dec j v of None \<Rightarrow> Inl (json_UnmarshalTypeError L j) | Some v' \<Rightarrow> Inr v'))"

definition Decode ::
  "stdlib \<Rightarrow> (json \<Rightarrow> 'a \<Rightarrow> 'a option) \<Rightarrow> 'a \<Rightarrow> string \<Rightarrow> error + 'a" where
  "Decode L dec v body =
     (case json_Decode L body of
        Inl err \<Rightarrow> Inl err
      | Inr j \<Rightarrow> (case dec j v of None \<Rightarrow> Inl (json_UnmarshalTypeError L j) | Some v' \<Rightarrow> Inr v'))"

text \<open>\<open>Header.Set\<close>; the three keys the SDK sets are already in canonical form.\<close>

definition Header_Set :: "request \<Rightarrow> string \<Rightarrow> string \<Rightarrow> request" where
  "Header_Set req k v = req\<lparr>Request_Header := (Request_Header req)(k \<mapsto> v)\<rparr>"

section \<open>Request executor\<close>

text \<open>
  \<open>do\<close> (\<open>doRequest\<close> in the single-file copy of the SDK) in two steps: the request it
  builds, and the call of the transport on it. The \<open>body\<close> argument of type \<open>any\<close> is
  \<open>nil\<close> or a request struct, given here by the JSON value the struct encodes to.
\<close>

definition do_request ::
  "stdlib \<Rightarrow> Client \<Rightarrow> string \<Rightarrow> string \<Rightarrow> Authorization option \<Rightarrow> json option
     \<Rightarrow> error + request" where
  "do_request L c method path auth body =
     (case (case body of
              None \<Rightarrow> Inr None
            | Some b \<Rightarrow>
                (case json_Marshal L b of
                   Inl err \<Rightarrow> Inl (Errorf ''failed to marshal request body: %w'' [W err])
                 | Inr jsonData \<Rightarrow> Inr (Some jsonData))) of
        Inl err \<Rightarrow> Inl err
      | Inr bodyReader \<Rightarrow>
          (case http_NewRequest L method (url c @ path) of
             Some err \<Rightarrow> Inl (Errorf ''failed to create request: %w'' [W err])
           | None \<Rightarrow>
               (let req = \<lparr>Request_Method = method, Request_URL = url c @ path,
                           Request_Header = Map.empty, Request_Body = bodyReader\<rparr>;
                    req = Header_Set req ''Content-Type'' ''application/json''
                in Inr (case auth of
                          None \<Rightarrow> req
                        | Some a \<Rightarrow>
                            Header_Set
                              (Header_Set req ''X-User-Id''
                                 (Sprintf ''%d'' [D (sint (Authorization_Id a))]))
                              ''X-Token'' (Authorization_Token a)))))"

definition do ::
  "stdlib \<Rightarrow> Client \<Rightarrow> string \<Rightarrow> string \<Rightarrow> Authorization option \<Rightarrow> json option
     \<Rightarrow> error + response" where
  "do L c method path auth body =
     (case do_request L c method path auth body of
        Inl err \<Rightarrow> Inl err
      | Inr req \<Rightarrow>
          (case http c req of
             Inl err \<Rightarrow> Inl (Errorf ''failed to execute request: %w'' [W err])
           | Inr resp \<Rightarrow> Inr resp))"

text \<open>
  The constructors of the client; the \<open>http.Client\<close> they allocate is the transport,
  passed in.
\<close>

definition NewClient :: "(request \<Rightarrow> error + response) \<Rightarrow> string \<Rightarrow> Client" where
  "NewClient transport endpoint = \<lparr>url = endpoint, http = transport\<rparr>"

definition NewLocalhostClient :: "(request \<Rightarrow> error + response) \<Rightarrow> int \<Rightarrow> Client" where
  "NewLocalhostClient transport port =
     NewClient transport (Sprintf ''http://localhost:%d'' [D port])"

definition NewMeetacyClient :: "(request \<Rightarrow> error + response) \<Rightarrow> Client" where
  "NewMeetacyClient transport = NewClient transport ''https://meetacy.app/friendly''"

section \<open>Endpoint operations\<close>

text \<open>
  An operation that returns \<open>(value, error)\<close> returns a sum, \<open>Inl\<close> the error; one that
  returns only \<open>error\<close> returns an option, \<open>None\<close> for \<open>nil\<close>. A \<open>*Authorization\<close> is
  an option, \<open>None\<close> for \<open>nil\<close>.
\<close>

definition Generate ::
  "stdlib \<Rightarrow> Client \<Rightarrow> Nickname \<Rightarrow> UserDescription \<Rightarrow> Interest slice \<Rightarrow> FileDescriptor option
     \<Rightarrow> error + Authorization" where
  "Generate L c nickname description interests avatar =
     (let req = \<lparr>generateRequest_Nickname = nickname, generateRequest_Description = description,
                 generateRequest_Interests = interests, generateRequest_Avatar = avatar\<rparr>
      in case do L c ''POST'' ''/auth/generate'' None (Some (marshal_generateRequest req)) of
           Inl err \<Rightarrow> Inl (Errorf ''request failed: %w'' [W err])
         | Inr resp \<Rightarrow>
             (let bodyBytes = Response_Body resp
              in if Response_StatusCode resp \<noteq> StatusOK then
                   Inl (Errorf ''generate failed with status %d: %s''
                          [D (Response_StatusCode resp), S bodyBytes])
                 else
                   (case Unmarshal L unmarshal_generateResponse zero_generateResponse bodyBytes of
                      Inl err \<Rightarrow>
                        Inl (Errorf ''failed to decode response: %w, body: %s'' [W err, S bodyBytes])
                    | Inr genResp \<Rightarrow>
                        Inr \<lparr>Authorization_Id = generateResponse_Id genResp,
                             Authorization_AccessHash = generateResponse_AccessHash genResp,
                             Authorization_Token = generateResponse_Token genResp\<rparr>)))"

definition GetSelfDetails :: "stdlib \<Rightarrow> Client \<Rightarrow> Authorization option \<Rightarrow> error + UserDetails" where
  "GetSelfDetails L c auth =
     (case do L c ''GET'' ''/users/details'' auth None of
        Inl err \<Rightarrow> Inl err
      | Inr resp \<Rightarrow>
          if Response_StatusCode resp = StatusUnauthorized then Inl (Errorf ''unauthorized'' [])
          else if Response_StatusCode resp \<noteq> StatusOK then
            Inl (Errorf ''get details failed: status %d'' [D (Response_StatusCode resp)])
          else Decode L unmarshal_UserDetails zero_UserDetails (Response_Body resp))"

definition GetUserDetails ::
  "stdlib \<Rightarrow> Client \<Rightarrow> Authorization option \<Rightarrow> UserId \<Rightarrow> UserAccessHash \<Rightarrow> error + UserDetails" where
  "GetUserDetails L c auth userId accessHash =
     (let path = Sprintf ''/users/details/%d/%s'' [D (sint userId), S accessHash]
      in case do L c ''GET'' path auth None of
           Inl err \<Rightarrow> Inl err
         | Inr resp \<Rightarrow>
             if Response_StatusCode resp = StatusUnauthorized then Inl (Errorf ''unauthorized'' [])
             else if Response_StatusCode resp \<noteq> StatusOK then
               Inl (Errorf ''get user details failed: status %d'' [D (Response_StatusCode resp)])
             else Decode L unmarshal_UserDetails zero_UserDetails (Response_Body resp))"

definition GenerateFriendToken :: "stdlib \<Rightarrow> Client \<Rightarrow> Authorization option \<Rightarrow> error + FriendToken" where
  "GenerateFriendToken L c auth =
     (case do L c ''POST'' ''/friends/generate'' auth None of
        Inl err \<Rightarrow> Inl err
      | Inr resp \<Rightarrow>
          if Response_StatusCode resp = StatusUnauthorized then Inl (Errorf ''unauthorized'' [])
          else if Response_StatusCode resp \<noteq> StatusOK then
            Inl (Errorf ''generate token failed: status %d'' [D (Response_StatusCode resp)])
          else
            (case Decode L unmarshal_generateFriendTokenResponse zero_generateFriendTokenResponse
                    (Response_Body resp) of
               Inl err \<Rightarrow> Inl err
             | Inr tokenResp \<Rightarrow> Inr (generateFriendTokenResponse_Token tokenResp)))"

definition AddFriend ::
  "stdlib \<Rightarrow> Client \<Rightarrow> Authorization option \<Rightarrow> FriendToken \<Rightarrow> UserId \<Rightarrow> error option" where
  "AddFriend L c auth token userId =
     (let req = \<lparr>addFriendRequest_Token = token, addFriendRequest_UserId = userId\<rparr>
      in case do L c ''POST'' ''/friends/add'' auth (Some (marshal_addFriendRequest req)) of
           Inl err \<Rightarrow> Some err
         | Inr resp \<Rightarrow>
             if Response_StatusCode resp = StatusUnauthorized then Some (Errorf ''unauthorized'' [])
             else if Response_StatusCode resp \<noteq> StatusOK then
               Some (Errorf ''add friend failed: status %d'' [D (Response_StatusCode resp)])
             else
               (case Decode L unmarshal_addFriendResponse zero_addFriendResponse
                       (Response_Body resp) of
                  Inl err \<Rightarrow> Some err
                | Inr addResp \<Rightarrow>
                    if addFriendResponse_Type addResp = ''FriendTokenExpired'' then
                      Some (Errorf ''friend token expired'' [])
                    else None))"

definition SendFriendRequest ::
  "stdlib \<Rightarrow> Client \<Rightarrow> Authorization option \<Rightarrow> UserId \<Rightarrow> UserAccessHash \<Rightarrow> error option" where
  "SendFriendRequest L c auth userId accessHash =
     (let req = \<lparr>friendRequestRequest_UserId = userId,
                 friendRequestRequest_AccessHash = accessHash\<rparr>
      in case do L c ''POST'' ''/friends/request'' auth (Some (marshal_friendRequestRequest req)) of
           Inl err \<Rightarrow> Some err
         | Inr resp \<Rightarrow>
             if Response_StatusCode resp = StatusUnauthorized then Some (Errorf ''unauthorized'' [])
             else if Response_StatusCode resp = StatusNotFound then
               Some (Errorf ''user not found'' [])
             else if Response_StatusCode resp \<noteq> StatusOK then
               Some (Errorf ''send request failed: status %d'' [D (Response_StatusCode resp)])
             else None)"

definition DeclineFriendRequest ::
  "stdlib \<Rightarrow> Client \<Rightarrow> Authorization option \<Rightarrow> UserId \<Rightarrow> UserAccessHash \<Rightarrow> error option" where
  "DeclineFriendRequest L c auth userId accessHash =
     (let req = \<lparr>friendRequestRequest_UserId = userId,
                 friendRequestRequest_AccessHash = accessHash\<rparr>
      in case do L c ''POST'' ''/friends/decline'' auth (Some (marshal_friendRequestRequest req)) of
           Inl err \<Rightarrow> Some err
         | Inr resp \<Rightarrow>
             if Response_StatusCode resp = StatusUnauthorized then Some (Errorf ''unauthorized'' [])
             else if Response_StatusCode resp = StatusNotFound then
               Some (Errorf ''user not found'' [])
             else if Response_StatusCode resp \<noteq> StatusOK then
               Some (Errorf ''decline request failed: status %d'' [D (Response_StatusCode resp)])
             else None)"

definition GetNetworkDetails ::
  "stdlib \<Rightarrow> Client \<Rightarrow> Authorization option \<Rightarrow> error + NetworkDetails" where
  "GetNetworkDetails L c auth =
     (case do L c ''GET'' ''/network/details'' auth None of
        Inl err \<Rightarrow> Inl err
      | Inr resp \<Rightarrow>
          if Response_StatusCode resp = StatusUnauthorized then Inl (Errorf ''unauthorized'' [])
          else if Response_StatusCode resp \<noteq> StatusOK then
            Inl (Errorf ''get network failed: status %d'' [D (Response_StatusCode resp)])
          else Decode L unmarshal_NetworkDetails zero_NetworkDetails (Response_Body resp))"

definition GetFeedQueue :: "stdlib \<Rightarrow> Client \<Rightarrow> Authorization option \<Rightarrow> error + FeedQueue" where
  "GetFeedQueue L c auth =
     (case do L c ''GET'' ''/feed/queue'' auth None of
        Inl err \<Rightarrow> Inl err
      | Inr resp \<Rightarrow>
          if Response_StatusCode resp = StatusUnauthorized then Inl (Errorf ''unauthorized'' [])
          else if Response_StatusCode resp \<noteq> StatusOK then
            Inl (Errorf ''get feed failed: status %d'' [D (Response_StatusCode resp)])
          else Decode L unmarshal_FeedQueue zero_FeedQueue (Response_Body resp))"

subsection \<open>Files\<close>

text \<open>
  \<open>GetFileURL\<close> dereferences its descriptor; the argument here is the struct pointed to.
\<close>

definition GetFileURL :: "Client \<Rightarrow> FileDescriptor \<Rightarrow> string" where
  "GetFileURL c descriptor =
     Sprintf ''%s/files/download/%d/%s''
       [S (url c), D (sint (FileDescriptor_Id descriptor)),
        S (FileDescriptor_AccessHash descriptor)]"

text \<open>
  \<open>UploadFile\<close>: the reader is what reading it to the end yields, its content or its
  error. \<open>multipart_Close\<close> gives the finished form body and the content type that names
  the boundary.
\<close>

definition UploadFile ::
  "stdlib \<Rightarrow> Client \<Rightarrow> string \<Rightarrow> error + string \<Rightarrow> error + FileDescriptor" where
  "UploadFile L c filename reader =
     (case multipart_CreateFormFile L ''file'' filename of
        Some err \<Rightarrow> Inl err
      | None \<Rightarrow>
     (case reader of
        Inl err \<Rightarrow> Inl err
      | Inr content \<Rightarrow>
     (case multipart_Close L ''file'' filename content of
        Inl err \<Rightarrow> Inl err
      | Inr (body, contentType) \<Rightarrow>
     (case http_NewRequest L ''POST'' (url c @ ''/files/upload'') of
        Some err \<Rightarrow> Inl err
      | None \<Rightarrow>
     (let req = \<lparr>Request_Method = ''POST'', Request_URL = url c @ ''/files/upload'',
                 Request_Header = Map.empty, Request_Body = Some body\<rparr>;
          req = Header_Set req ''Content-Type'' contentType
      in case http c req of
           Inl err \<Rightarrow> Inl err
         | Inr resp \<Rightarrow>
             if Response_StatusCode resp \<noteq> StatusOK then
               Inl (Errorf ''upload failed: status %d'' [D (Response_StatusCode resp)])
             else
               (case Decode L unmarshal_uploadFileResponse zero_uploadFileResponse
                       (Response_Body resp) of
                  Inl err \<Rightarrow> Inl err
                | Inr uploadResp \<Rightarrow>
                    Inr \<lparr>FileDescriptor_Id = uploadFileResponse_Id uploadResp,
                         FileDescriptor_AccessHash = uploadFileResponse_AccessHash uploadResp\<rparr>))))))"

section \<open>A sample library and server for the worked examples\<close>

text \<open>
  The theorems below hold for every library and every transport. Their worked examples run
  on this instance: a renderer that writes a JSON value without white space (strings quoted
  as they are, enough for text that needs no escaping), a parser given by a table of the
  response bodies the examples use, and a server that answers every request alike.
\<close>

fun commas :: "string list \<Rightarrow> string" where
  "commas [] = []"
| "commas [x] = x"
| "commas (x # y # ys) = x @ '','' @ commas (y # ys)"

definition quote :: "string \<Rightarrow> string" where
  \<open>quote s = ''"'' @ s @ ''"''\<close>

fun sample_render :: "json \<Rightarrow> string" where
  "sample_render JNull = ''null''"
| "sample_render (JBool b) = (if b then ''true'' else ''false'')"
| "sample_render (JInt i) = decimal i"
| "sample_render (JFloat s) = s"
| "sample_render (JString s) = quote s"
| "sample_render (JArray xs) = ''['' @ commas (map sample_render xs) @ '']''"
| "sample_render (JObject ms) =
     ''{'' @ commas (map (\<lambda>(k, v). quote k @ '':'' @ sample_render v) ms) @ ''}''"

definition body_expired :: string where
  \<open>body_expired = ''{"type":"FriendTokenExpired"}''\<close>

definition body_token :: string where
  \<open>body_token = ''{"token":"abc"}''\<close>

definition body_generated :: string where
  \<open>body_generated =
     ''{"id":1,"accessHash":"'' @ replicate 256 CHR ''a'' @ ''","token":"'' @
     replicate 256 CHR ''t'' @ ''"}''\<close>

definition body_short_credentials :: string where
  \<open>body_short_credentials = ''{"id":2,"accessHash":"a","token":"t"}''\<close>

definition body_feed :: string where
  \<open>body_feed =
     ''{"entries":[{"isExtendedNetwork":true,"commonFriends":[],"details":{"id":7,"accessHash":"h","nickname":"bob","description":"","interests":["go"],"avatar":null}}]}''\<close>

definition sample_parse :: "string \<Rightarrow> error + json" where
  "sample_parse text =
     (if text = body_expired then Inr (JObject [(''type'', JString ''FriendTokenExpired'')])
      else if text = body_token then Inr (JObject [(''token'', JString ''abc'')])
      else if text = body_generated then
        Inr (JObject [(''id'', JInt 1), (''accessHash'', JString (replicate 256 CHR ''a'')),
                      (''token'', JString (replicate 256 CHR ''t''))])
      else if text = body_short_credentials then
        Inr (JObject [(''id'', JInt 2), (''accessHash'', JString ''a''), (''token'', JString ''t'')])
      else if text = body_feed then
        Inr (JObject [(''entries'', JArray [JObject
               [(''isExtendedNetwork'', JBool True), (''commonFriends'', JArray []),
                (''details'', JObject
                   [(''id'', JInt 7), (''accessHash'', JString ''h''),
                    (''nickname'', JString ''bob''), (''description'', JString ''''),
                    (''interests'', JArray [JString ''go'']), (''avatar'', JNull)])]])])
      else Inl (Error ''invalid character'' None))"

definition sample_lib :: stdlib where
  "sample_lib =
     \<lparr>json_Marshal = (\<lambda>j. Inr (sample_render j)),
      json_Unmarshal = sample_parse,
      json_Decode = sample_parse,
      json_UnmarshalTypeError = (\<lambda>j. Error ''json: cannot unmarshal'' None),
      http_NewRequest = (\<lambda>method target. None),
      multipart_CreateFormFile = (\<lambda>fieldname filename. None),
      multipart_Close = (\<lambda>fieldname filename content. Inr (content, ''multipart/form-data''))\<rparr>"

definition answering :: "int \<Rightarrow> string \<Rightarrow> Client" where
  "answering code body =
     NewClient (\<lambda>req. Inr \<lparr>Response_StatusCode = code, Response_Body = body\<rparr>) ''https://x''"

definition sample_auth :: Authorization where
  "sample_auth =
     \<lparr>Authorization_Id = 5, Authorization_AccessHash = ''hash'', Authorization_Token = ''secret''\<rparr>"

definition sample_feed :: FeedQueue where
  "sample_feed =
     \<lparr>FeedQueue_Entries = Some
        [\<lparr>FeedEntry_IsExtendedNetwork = True, FeedEntry_CommonFriends = Some [],
          FeedEntry_Details =
            \<lparr>UserDetails_Id = 7, UserDetails_AccessHash = ''h'', UserDetails_Nickname = ''bob'',
             UserDetails_Description = '''', UserDetails_Interests = Some [''go''],
             UserDetails_Avatar = None\<rparr>\<rparr>]\<rparr>"

definition body_add_friend :: string where
  \<open>body_add_friend = ''{"token":"abc","userId":7}''\<close>

definition sample_request :: request where
  "sample_request =
     \<lparr>Request_Method = ''POST'', Request_URL = ''https://x/friends/add'',
      Request_Header = [''Content-Type'' \<mapsto> ''application/json'', ''X-User-Id'' \<mapsto> ''5'',
                        ''X-Token'' \<mapsto> ''secret''],
      Request_Body = Some body_add_friend\<rparr>"

definition sample_plain_request :: request where
  "sample_plain_request =
     \<lparr>Request_Method = ''GET'', Request_URL = ''https://x/feed/queue'',
      Request_Header = [''Content-Type'' \<mapsto> ''application/json''],
      Request_Body = None\<rparr>"

section \<open>Verified properties\<close>

subsection \<open>Value constructors\<close>

text \<open>
  Claim C4. For every string, each of \<open>NewToken\<close>, \<open>NewUserAccessHash\<close>,
  \<open>NewFileAccessHash\<close> and \<open>NewFriendToken\<close> succeeds if and only if the string has
  exactly 256 bytes; in particular a string of 255 or of 257 bytes is rejected by all four.
\<close>

theorem exact_length_constructors:
  "((\<exists>t. NewToken s = Inr t) \<longleftrightarrow> length s = 256) \<and>
   ((\<exists>h. NewUserAccessHash s = Inr h) \<longleftrightarrow> length s = 256) \<and>
   ((\<exists>h. NewFileAccessHash s = Inr h) \<longleftrightarrow> length s = 256) \<and>
   ((\<exists>t. NewFriendToken s = Inr t) \<longleftrightarrow> length s = 256) \<and>
   (length s = 255 \<or> length s = 257 \<longrightarrow>
      (\<exists>e. NewToken s = Inl e) \<and> (\<exists>e. NewUserAccessHash s = Inl e) \<and>
      (\<exists>e. NewFileAccessHash s = Inl e) \<and> (\<exists>e. NewFriendToken s = Inl e))"
  by (auto simp: NewToken_def NewUserAccessHash_def NewFileAccessHash_def NewFriendToken_def)

theorem exact_length_constructors_witness:
  "(\<exists>t. NewToken (replicate 256 CHR ''a'') = Inr t) \<and>
   (\<exists>h. NewUserAccessHash (replicate 256 CHR ''a'') = Inr h) \<and>
   (\<exists>h. NewFileAccessHash (replicate 256 CHR ''a'') = Inr h) \<and>
   (\<exists>t. NewFriendToken (replicate 256 CHR ''a'') = Inr t) \<and>
   (\<exists>e. NewToken (replicate 255 CHR ''a'') = Inl e) \<and>
   (\<exists>e. NewFriendToken (replicate 257 CHR ''a'') = Inl e)"
  using exact_length_constructors [of "replicate 256 CHR ''a''"]
    exact_length_constructors [of "replicate 255 CHR ''a''"]
    exact_length_constructors [of "replicate 257 CHR ''a''"]
  by simp

text \<open>
  Claim C5. \<open>NewNickname\<close> succeeds if and only if the string has at most 256 bytes, and
  the nickname it returns is the string itself; \<open>NewUserDescription\<close> succeeds if and only
  if the string has at most 1024 bytes; \<open>NewInterest\<close> if and only if it has at most 64.
\<close>

theorem bounded_length_constructors:
  "((\<exists>n. NewNickname s = Inr n) \<longleftrightarrow> length s \<le> 256) \<and>
   (\<forall>n. NewNickname s = Inr n \<longrightarrow> n = s) \<and>
   ((\<exists>d. NewUserDescription s = Inr d) \<longleftrightarrow> length s \<le> 1024) \<and>
   ((\<exists>i. NewInterest s = Inr i) \<longleftrightarrow> length s \<le> 64)"
  by (auto simp: NewNickname_def NewUserDescription_def NewInterest_def)

theorem bounded_length_constructors_witness:
  "NewNickname ''alice'' = Inr ''alice'' \<and>
   (\<exists>d. NewUserDescription ''alice'' = Inr d) \<and> (\<exists>i. NewInterest ''alice'' = Inr i) \<and>
   \<not> (\<exists>i. NewInterest (replicate 65 CHR ''a'') = Inr i)"
  using bounded_length_constructors [of "''alice''"]
    bounded_length_constructors [of "replicate 65 CHR ''a''"]
  by auto

subsection \<open>Download URL\<close>

text \<open>
  Claim C7. \<open>GetFileURL\<close> returns the base URL, \<open>/files/download/\<close>, the id in decimal,
  a slash and the access hash, concatenated; the result does not depend on the transport of
  the client (no request is made); base \<open>https://x\<close>, id 42 and hash \<open>h\<close> give
  \<open>https://x/files/download/42/h\<close>.
\<close>

theorem GetFileURL_composition:
  "GetFileURL c d =
     url c @ ''/files/download/'' @ decimal (sint (FileDescriptor_Id d)) @ ''/'' @
     FileDescriptor_AccessHash d \<and>
   GetFileURL (c\<lparr>http := t\<rparr>) d = GetFileURL c d \<and>
   GetFileURL (NewClient t ''https://x'')
     \<lparr>FileDescriptor_Id = 42, FileDescriptor_AccessHash = ''h''\<rparr> =
     ''https://x/files/download/42/h''"
  by (simp add: GetFileURL_def NewClient_def decimal_def digits.simps digit_char_def)

subsection \<open>Status codes\<close>

text \<open>
  Claim C1. Whenever the response to \<open>AddFriend\<close> has status 200 and its body decodes to
  an \<open>addFriendResponse\<close> whose \<open>Type\<close> is \<open>FriendTokenExpired\<close>, \<open>AddFriend\<close>
  returns the error \<open>friend token expired\<close>: the 200 alone is not success.
\<close>

theorem AddFriend_expired_token:
  assumes "do L c ''POST'' ''/friends/add'' auth
             (Some (marshal_addFriendRequest
                \<lparr>addFriendRequest_Token = token, addFriendRequest_UserId = userId\<rparr>)) = Inr resp"
    and "Response_StatusCode resp = StatusOK"
    and "json_Decode L (Response_Body resp) = Inr j"
    and "unmarshal_addFriendResponse j zero_addFriendResponse = Some addResp"
    and "addFriendResponse_Type addResp = ''FriendTokenExpired''"
  shows "AddFriend L c auth token userId = Some (Error ''friend token expired'' None)"
  using assms by (simp add: AddFriend_def Decode_def Errorf_def)

theorem AddFriend_expired_token_witness:
  "AddFriend sample_lib (answering 200 body_expired) (Some sample_auth) ''abc'' 7 =
     Some (Error ''friend token expired'' None)"
  using AddFriend_expired_token [of sample_lib "answering 200 body_expired" "Some sample_auth"
      "''abc''" 7 "\<lparr>Response_StatusCode = 200, Response_Body = body_expired\<rparr>"
      "JObject [(''type'', JString ''FriendTokenExpired'')]"
      "\<lparr>addFriendResponse_Type = ''FriendTokenExpired''\<rparr>"]
  by (simp add: do_def do_request_def sample_lib_def answering_def NewClient_def sample_parse_def
      unmarshal_addFriendResponse_def unmarshal_struct_def field_addFriendResponse_def
      tag_match_def ascii_upper_def unmarshal_string_def zero_addFriendResponse_def)

text \<open>
  Claim C3. For each of the eight authenticated operations, a response with status 401 makes
  the operation return the error \<open>unauthorized\<close>, which is none of the status errors
  the operations format for other codes.
\<close>

theorem unauthorized_status:
  assumes "Response_StatusCode resp = StatusUnauthorized"
  shows
    "(do L c ''GET'' ''/users/details'' auth None = Inr resp \<longrightarrow>
        GetSelfDetails L c auth = Inl (Error ''unauthorized'' None)) \<and>
     (do L c ''GET'' (Sprintf ''/users/details/%d/%s'' [D (sint userId), S accessHash]) auth None
          = Inr resp \<longrightarrow>
        GetUserDetails L c auth userId accessHash = Inl (Error ''unauthorized'' None)) \<and>
     (do L c ''POST'' ''/friends/generate'' auth None = Inr resp \<longrightarrow>
        GenerateFriendToken L c auth = Inl (Error ''unauthorized'' None)) \<and>
     (do L c ''POST'' ''/friends/add'' auth
          (Some (marshal_addFriendRequest
             \<lparr>addFriendRequest_Token = token, addFriendRequest_UserId = userId\<rparr>)) = Inr resp \<longrightarrow>
        AddFriend L c auth token userId = Some (Error ''unauthorized'' None)) \<and>
     (do L c ''POST'' ''/friends/request'' auth
          (Some (marshal_friendRequestRequest
             \<lparr>friendRequestRequest_UserId = userId,
              friendRequestRequest_AccessHash = accessHash\<rparr>)) = Inr resp \<longrightarrow>
        SendFriendRequest L c auth userId accessHash = Some (Error ''unauthorized'' None)) \<and>
     (do L c ''POST'' ''/friends/decline'' auth
          (Some (marshal_friendRequestRequest
             \<lparr>friendRequestRequest_UserId = userId,
              friendRequestRequest_AccessHash = accessHash\<rparr>)) = Inr resp \<longrightarrow>
        DeclineFriendRequest L c auth userId accessHash = Some (Error ''unauthorized'' None)) \<and>
     (do L c ''GET'' ''/network/details'' auth None = Inr resp \<longrightarrow>
        GetNetworkDetails L c auth = Inl (Error ''unauthorized'' None)) \<and>
     (do L c ''GET'' ''/feed/queue'' auth None = Inr resp \<longrightarrow>
        GetFeedQueue L c auth = Inl (Error ''unauthorized'' None)) \<and>
     Error ''unauthorized'' None \<notin>
       {Errorf ''get details failed: status %d'' [D (Response_StatusCode resp)],
        Errorf ''get user details failed: status %d'' [D (Response_StatusCode resp)],
        Errorf ''generate token failed: status %d'' [D (Response_StatusCode resp)],
        Errorf ''add friend failed: status %d'' [D (Response_StatusCode resp)],
        Errorf ''send request failed: status %d'' [D (Response_StatusCode resp)],
        Errorf ''decline request failed: status %d'' [D (Response_StatusCode resp)],
        Errorf ''get network failed: status %d'' [D (Response_StatusCode resp)],
        Errorf ''get feed failed: status %d'' [D (Response_StatusCode resp)]}"
  using assms
  by (simp add: GetSelfDetails_def GetUserDetails_def GenerateFriendToken_def AddFriend_def
      SendFriendRequest_def DeclineFriendRequest_def GetNetworkDetails_def GetFeedQueue_def
      Errorf_def)

theorem unauthorized_status_witness:
  "GetSelfDetails sample_lib (answering 401 []) (Some sample_auth) =
     Inl (Error ''unauthorized'' None) \<and>
   GetUserDetails sample_lib (answering 401 []) (Some sample_auth) 7 ''h'' =
     Inl (Error ''unauthorized'' None) \<and>
   GenerateFriendToken sample_lib (answering 401 []) (Some sample_auth) =
     Inl (Error ''unauthorized'' None) \<and>
   AddFriend sample_lib (answering 401 []) (Some sample_auth) ''abc'' 7 =
     Some (Error ''unauthorized'' None) \<and>
   SendFriendRequest sample_lib (answering 401 []) (Some sample_auth) 7 ''h'' =
     Some (Error ''unauthorized'' None) \<and>
   DeclineFriendRequest sample_lib (answering 401 []) (Some sample_auth) 7 ''h'' =
     Some (Error ''unauthorized'' None) \<and>
   GetNetworkDetails sample_lib (answering 401 []) (Some sample_auth) =
     Inl (Error ''unauthorized'' None) \<and>
   GetFeedQueue sample_lib (answering 401 []) None = Inl (Error ''unauthorized'' None)"
  using unauthorized_status [of "\<lparr>Response_StatusCode = 401, Response_Body = []\<rparr>"
      sample_lib "answering 401 []" "Some sample_auth" 7 "''h''" "''abc''"]
    unauthorized_status [of "\<lparr>Response_StatusCode = 401, Response_Body = []\<rparr>"
      sample_lib "answering 401 []" None 7 "''h''" "''abc''"]
  by (simp add: do_def do_request_def sample_lib_def answering_def NewClient_def)

text \<open>
  Claim C2, as stated, fails: at status 500 \<open>GetFeedQueue\<close> returns the same error for
  the bodies \<open>boom\<close> and \<open>bang\<close>, and its message holds neither.
\<close>

theorem unexpected_status_counterexample:
  "GetFeedQueue sample_lib (answering 500 ''boom'') (Some sample_auth) =
     Inl (Error ''get feed failed: status 500'' None) \<and>
   GetFeedQueue sample_lib (answering 500 ''bang'') (Some sample_auth) =
     Inl (Error ''get feed failed: status 500'' None)"
  by (simp add: GetFeedQueue_def do_def do_request_def sample_lib_def answering_def NewClient_def
      Errorf_def decimal_def digits.simps digit_char_def)

text \<open>
  Claim C2, amended. For every operation and every response whose status is not 200 and not
  a status the operation maps to an error of its own (401 for the eight authenticated
  operations, also 404 for \<open>SendFriendRequest\<close> and \<open>DeclineFriendRequest\<close>), the
  operation returns an error whose message ends with the status code in decimal. Only the
  message of \<open>Generate\<close> continues with the response body.
\<close>

theorem unexpected_status_message:
  assumes "Response_StatusCode resp = code" and "code \<noteq> StatusOK"
  shows
    "(do L c ''POST'' ''/auth/generate'' None
          (Some (marshal_generateRequest
             \<lparr>generateRequest_Nickname = nickname, generateRequest_Description = description,
              generateRequest_Interests = interests, generateRequest_Avatar = avatar\<rparr>)) = Inr resp \<longrightarrow>
        Generate L c nickname description interests avatar =
          Inl (Error (''generate failed with status '' @ decimal code @ '': '' @ Response_Body resp)
                 None)) \<and>
     (code \<noteq> StatusUnauthorized \<longrightarrow>
      (do L c ''GET'' ''/users/details'' auth None = Inr resp \<longrightarrow>
         GetSelfDetails L c auth =
           Inl (Error (''get details failed: status '' @ decimal code) None)) \<and>
      (do L c ''GET'' (Sprintf ''/users/details/%d/%s'' [D (sint userId), S accessHash]) auth None
           = Inr resp \<longrightarrow>
         GetUserDetails L c auth userId accessHash =
           Inl (Error (''get user details failed: status '' @ decimal code) None)) \<and>
      (do L c ''POST'' ''/friends/generate'' auth None = Inr resp \<longrightarrow>
         GenerateFriendToken L c auth =
           Inl (Error (''generate token failed: status '' @ decimal code) None)) \<and>
      (do L c ''POST'' ''/friends/add'' auth
           (Some (marshal_addFriendRequest
              \<lparr>addFriendRequest_Token = token, addFriendRequest_UserId = userId\<rparr>)) = Inr resp \<longrightarrow>
         AddFriend L c auth token userId =
           Some (Error (''add friend failed: status '' @ decimal code) None)) \<and>
      (do L c ''GET'' ''/network/details'' auth None = Inr resp \<longrightarrow>
         GetNetworkDetails L c auth =
           Inl (Error (''get network failed: status '' @ decimal code) None)) \<and>
      (do L c ''GET'' ''/feed/queue'' auth None = Inr resp \<longrightarrow>
         GetFeedQueue L c auth =
           Inl (Error (''get feed failed: status '' @ decimal code) None)) \<and>
      (code \<noteq> StatusNotFound \<longrightarrow>
       (do L c ''POST'' ''/friends/request'' auth
            (Some (marshal_friendRequestRequest
               \<lparr>friendRequestRequest_UserId = userId,
                friendRequestRequest_AccessHash = accessHash\<rparr>)) = Inr resp \<longrightarrow>
          SendFriendRequest L c auth userId accessHash =
            Some (Error (''send request failed: status '' @ decimal code) None)) \<and>
       (do L c ''POST'' ''/friends/decline'' auth
            (Some (marshal_friendRequestRequest
               \<lparr>friendRequestRequest_UserId = userId,
                friendRequestRequest_AccessHash = accessHash\<rparr>)) = Inr resp \<longrightarrow>
          DeclineFriendRequest L c auth userId accessHash =
            Some (Error (''decline request failed: status '' @ decimal code) None)))) \<and>
     (multipart_CreateFormFile L ''file'' filename = None \<longrightarrow>
      multipart_Close L ''file'' filename content = Inr (form, contentType) \<longrightarrow>
      http_NewRequest L ''POST'' (url c @ ''/files/upload'') = None \<longrightarrow>
      http c (Header_Set
                \<lparr>Request_Method = ''POST'', Request_URL = url c @ ''/files/upload'',
                 Request_Header = Map.empty, Request_Body = Some form\<rparr>
                ''Content-Type'' contentType) = Inr resp \<longrightarrow>
        UploadFile L c filename (Inr content) =
          Inl (Error (''upload failed: status '' @ decimal code) None))"
  using assms
  by (simp add: Generate_def GetSelfDetails_def GetUserDetails_def GenerateFriendToken_def
      AddFriend_def SendFriendRequest_def DeclineFriendRequest_def GetNetworkDetails_def
      GetFeedQueue_def UploadFile_def Errorf_def)

theorem unexpected_status_message_witness:
  "Generate sample_lib (answering 500 ''boom'') ''bob'' ''hi'' None None =
     Inl (Error ''generate failed with status 500: boom'' None) \<and>
   GetSelfDetails sample_lib (answering 500 ''boom'') (Some sample_auth) =
     Inl (Error ''get details failed: status 500'' None) \<and>
   GetUserDetails sample_lib (answering 500 ''boom'') (Some sample_auth) 7 ''h'' =
     Inl (Error ''get user details failed: status 500'' None) \<and>
   GenerateFriendToken sample_lib (answering 500 ''boom'') (Some sample_auth) =
     Inl (Error ''generate token failed: status 500'' None) \<and>
   AddFriend sample_lib (answering 500 ''boom'') (Some sample_auth) ''abc'' 7 =
     Some (Error ''add friend failed: status 500'' None) \<and>
   GetNetworkDetails sample_lib (answering 500 ''boom'') (Some sample_auth) =
     Inl (Error ''get network failed: status 500'' None) \<and>
   GetFeedQueue sample_lib (answering 500 ''boom'') (Some sample_auth) =
     Inl (Error ''get feed failed: status 500'' None) \<and>
   SendFriendRequest sample_lib (answering 500 ''boom'') (Some sample_auth) 7 ''h'' =
     Some (Error ''send request failed: status 500'' None) \<and>
   DeclineFriendRequest sample_lib (answering 500 ''boom'') (Some sample_auth) 7 ''h'' =
     Some (Error ''decline request failed: status 500'' None) \<and>
   UploadFile sample_lib (answering 500 ''boom'') ''a.png'' (Inr ''data'') =
     Inl (Error ''upload failed: status 500'' None)"
  using unexpected_status_message [of "\<lparr>Response_StatusCode = 500, Response_Body = ''boom''\<rparr>"
      500 sample_lib "answering 500 ''boom''" "''bob''" "''hi''" None None "Some sample_auth"
      7 "''h''" "''abc''" "''a.png''" "''data''" "''data''" "''multipart/form-data''"]
  by (simp add: do_def do_request_def sample_lib_def answering_def NewClient_def
      decimal_def digits.simps digit_char_def)

subsection \<open>Request executor\<close>

text \<open>
  Claim C8. Whenever the executor builds a request: with an \<open>Authorization\<close> the request
  has the header \<open>X-User-Id\<close> with the user id in decimal and the header \<open>X-Token\<close>
  with the token, and without one it has neither; the access hash has no influence on the
  request; the body is the library's rendering of the payload when there is a payload and is
  absent otherwise, whatever the \<open>Authorization\<close>; and this request is the one handed to
  the transport.
\<close>

theorem do_request_authentication:
  assumes "do_request L c method path auth body = Inr req"
  shows
    "Request_Header req ''X-User-Id'' =
       map_option (\<lambda>a. decimal (sint (Authorization_Id a))) auth \<and>
     Request_Header req ''X-Token'' = map_option Authorization_Token auth \<and>
     Request_Header req ''Content-Type'' = Some ''application/json'' \<and>
     (\<forall>h. do_request L c method path
            (map_option (\<lambda>a. a\<lparr>Authorization_AccessHash := h\<rparr>) auth) body = Inr req) \<and>
     (case body of
        None \<Rightarrow> Request_Body req = None
      | Some b \<Rightarrow> \<exists>data. json_Marshal L b = Inr data \<and> Request_Body req = Some data) \<and>
     (\<forall>auth'. \<exists>req'. do_request L c method path auth' body = Inr req' \<and>
                     Request_Body req' = Request_Body req) \<and>
     Request_Method req = method \<and> Request_URL req = url c @ path \<and>
     do L c method path auth body =
       (case http c req of
          Inl err \<Rightarrow> Inl (Errorf ''failed to execute request: %w'' [W err])
        | Inr resp \<Rightarrow> Inr resp)"
  using assms
  by (auto simp: do_request_def do_def Header_Set_def Let_def
      split: option.splits sum.splits)

theorem do_request_authentication_witness:
  "do_request sample_lib (answering 200 []) ''POST'' ''/friends/add'' (Some sample_auth)
     (Some (marshal_addFriendRequest
        \<lparr>addFriendRequest_Token = ''abc'', addFriendRequest_UserId = 7\<rparr>)) = Inr sample_request \<and>
   Request_Header sample_request ''X-User-Id'' = Some ''5'' \<and>
   Request_Header sample_request ''X-Token'' = Some ''secret'' \<and>
   Request_Body sample_request = Some body_add_friend \<and>
   do_request sample_lib (answering 200 []) ''GET'' ''/feed/queue'' None None =
     Inr sample_plain_request \<and>
   Request_Header sample_plain_request ''X-User-Id'' = None \<and>
   Request_Header sample_plain_request ''X-Token'' = None \<and>
   Request_Body sample_plain_request = None"
proof -
  have built: "do_request sample_lib (answering 200 []) ''POST'' ''/friends/add''
      (Some sample_auth)
      (Some (marshal_addFriendRequest
         \<lparr>addFriendRequest_Token = ''abc'', addFriendRequest_UserId = 7\<rparr>)) = Inr sample_request"
    by (simp add: do_request_def Header_Set_def sample_lib_def answering_def NewClient_def
        sample_auth_def sample_request_def body_add_friend_def marshal_addFriendRequest_def
        marshal_int64_def quote_def decimal_def digits.simps digit_char_def)
  have plain: "do_request sample_lib (answering 200 []) ''GET'' ''/feed/queue'' None None =
      Inr sample_plain_request"
    by (simp add: do_request_def Header_Set_def sample_lib_def answering_def NewClient_def
        sample_plain_request_def)
  show ?thesis
    using do_request_authentication [OF built] do_request_authentication [OF plain] built plain
    by (simp add: sample_auth_def decimal_def digits.simps digit_char_def
        sample_lib_def marshal_addFriendRequest_def marshal_int64_def quote_def
        body_add_friend_def)
qed

subsection \<open>Decoded credentials\<close>

lemmas tag_eval = tag_match_def ascii_upper_def

lemma unmarshal_generateResponse_object:
  assumes "- (2 ^ 63) \<le> i" and "i < 2 ^ 63"
  shows "unmarshal_generateResponse
           (JObject [(''id'', JInt i), (''accessHash'', JString h), (''token'', JString t)]) g =
         Some \<lparr>generateResponse_Id = word_of_int i, generateResponse_AccessHash = h,
               generateResponse_Token = t\<rparr>"
  using assms
  by (simp add: unmarshal_generateResponse_def unmarshal_struct_def field_generateResponse_def
      tag_eval unmarshal_int64_def unmarshal_string_def)

lemma unmarshal_generateFriendTokenResponse_object:
  "unmarshal_generateFriendTokenResponse (JObject [(''token'', JString t)]) g =
     Some \<lparr>generateFriendTokenResponse_Token = t\<rparr>"
  by (simp add: unmarshal_generateFriendTokenResponse_def unmarshal_struct_def
      field_generateFriendTokenResponse_def tag_eval unmarshal_string_def)

text \<open>
  Claim C6. Whatever the nickname, description and interests (valid ones included) and with
  no avatar, when the server answers the request of \<open>Generate\<close> with status 200 and a body
  that decodes to a \<open>generateResponse\<close>, \<open>Generate\<close> succeeds and returns the
  \<open>Authorization\<close> made of exactly the decoded id, access hash and token; in particular a
  body that is the object with the members \<open>id\<close> (an integer that fits \<open>int64\<close>),
  \<open>accessHash\<close> and \<open>token\<close> (strings) yields these three values.
\<close>

theorem Generate_returns_decoded:
  assumes "do L c ''POST'' ''/auth/generate'' None
             (Some (marshal_generateRequest
                \<lparr>generateRequest_Nickname = nickname, generateRequest_Description = description,
                 generateRequest_Interests = interests, generateRequest_Avatar = None\<rparr>)) = Inr resp"
    and "Response_StatusCode resp = StatusOK"
    and "json_Unmarshal L (Response_Body resp) = Inr j"
  shows
    "(unmarshal_generateResponse j zero_generateResponse = Some genResp \<longrightarrow>
        Generate L c nickname description interests None =
          Inr \<lparr>Authorization_Id = generateResponse_Id genResp,
               Authorization_AccessHash = generateResponse_AccessHash genResp,
               Authorization_Token = generateResponse_Token genResp\<rparr>) \<and>
     (j = JObject [(''id'', JInt i), (''accessHash'', JString h), (''token'', JString t)] \<longrightarrow>
      - (2 ^ 63) \<le> i \<longrightarrow> i < 2 ^ 63 \<longrightarrow>
        Generate L c nickname description interests None =
          Inr \<lparr>Authorization_Id = word_of_int i, Authorization_AccessHash = h,
               Authorization_Token = t\<rparr>)"
  using assms
  by (simp add: Generate_def Unmarshal_def unmarshal_generateResponse_object)

theorem Generate_returns_decoded_witness:
  "NewNickname ''bob'' = Inr ''bob'' \<and> NewUserDescription ''hi'' = Inr ''hi'' \<and>
   NewInterest ''go'' = Inr ''go'' \<and>
   Generate sample_lib (answering 200 body_generated) ''bob'' ''hi'' (Some [''go'']) None =
     Inr \<lparr>Authorization_Id = 1, Authorization_AccessHash = replicate 256 CHR ''a'',
          Authorization_Token = replicate 256 CHR ''t''\<rparr>"
  using Generate_returns_decoded [of sample_lib "answering 200 body_generated" "''bob''" "''hi''"
      "Some [''go'']" "\<lparr>Response_StatusCode = 200, Response_Body = body_generated\<rparr>"
      "JObject [(''id'', JInt 1), (''accessHash'', JString (replicate 256 CHR ''a'')),
                (''token'', JString (replicate 256 CHR ''t''))]"
      "\<lparr>generateResponse_Id = 1, generateResponse_AccessHash = replicate 256 CHR ''a'',
        generateResponse_Token = replicate 256 CHR ''t''\<rparr>"
      1 "replicate 256 CHR ''a''" "replicate 256 CHR ''t''"]
  by (simp add: do_def do_request_def sample_lib_def answering_def NewClient_def sample_parse_def
      body_generated_def body_expired_def body_token_def NewNickname_def NewUserDescription_def
      NewInterest_def)

text \<open>
  Claim C10. No length is checked on the decode path. When the response has status 200 and
  its body decodes, \<open>GenerateFriendToken\<close> returns the decoded token as it is, and
  \<open>Generate\<close> returns the decoded access hash and token as they are; a body
  \<open>{"token": t}\<close> gives \<open>t\<close> and a body with the members \<open>id\<close>, \<open>accessHash\<close>
  and \<open>token\<close> gives these, for strings of any length, also where \<open>NewFriendToken\<close>,
  \<open>NewUserAccessHash\<close> and \<open>NewToken\<close> reject them.
\<close>

theorem decode_path_unvalidated:
  "(do L c ''POST'' ''/friends/generate'' auth None = Inr resp \<longrightarrow>
    Response_StatusCode resp = StatusOK \<longrightarrow>
    json_Decode L (Response_Body resp) = Inr j \<longrightarrow>
      (unmarshal_generateFriendTokenResponse j zero_generateFriendTokenResponse = Some tokenResp \<longrightarrow>
         GenerateFriendToken L c auth = Inr (generateFriendTokenResponse_Token tokenResp)) \<and>
      (j = JObject [(''token'', JString t)] \<longrightarrow>
         GenerateFriendToken L c auth = Inr t \<and>
         (length t \<noteq> 256 \<longrightarrow> (\<exists>e. NewFriendToken t = Inl e)))) \<and>
   (do L c ''POST'' ''/auth/generate'' None
       (Some (marshal_generateRequest
          \<lparr>generateRequest_Nickname = nickname, generateRequest_Description = description,
           generateRequest_Interests = interests, generateRequest_Avatar = avatar\<rparr>)) = Inr resp' \<longrightarrow>
    Response_StatusCode resp' = StatusOK \<longrightarrow>
    json_Unmarshal L (Response_Body resp') = Inr j' \<longrightarrow>
      (unmarshal_generateResponse j' zero_generateResponse = Some genResp \<longrightarrow>
         (\<exists>a. Generate L c nickname description interests avatar = Inr a \<and>
              Authorization_AccessHash a = generateResponse_AccessHash genResp \<and>
              Authorization_Token a = generateResponse_Token genResp)) \<and>
      (j' = JObject [(''id'', JInt i), (''accessHash'', JString h), (''token'', JString t')] \<longrightarrow>
       - (2 ^ 63) \<le> i \<longrightarrow> i < 2 ^ 63 \<longrightarrow>
         (\<exists>a. Generate L c nickname description interests avatar = Inr a \<and>
              Authorization_AccessHash a = h \<and> Authorization_Token a = t') \<and>
         (length h \<noteq> 256 \<longrightarrow> (\<exists>e. NewUserAccessHash h = Inl e)) \<and>
         (length t' \<noteq> 256 \<longrightarrow> (\<exists>e. NewToken t' = Inl e))))"
  by (simp add: GenerateFriendToken_def Generate_def Decode_def Unmarshal_def
      unmarshal_generateFriendTokenResponse_object unmarshal_generateResponse_object
      NewFriendToken_def NewUserAccessHash_def NewToken_def)

theorem decode_path_unvalidated_witness:
  "GenerateFriendToken sample_lib (answering 200 body_token) (Some sample_auth) = Inr ''abc'' \<and>
   (\<exists>e. NewFriendToken ''abc'' = Inl e) \<and>
   (\<exists>a. Generate sample_lib (answering 200 body_short_credentials) ''bob'' ''hi'' None None =
          Inr a \<and>
        Authorization_AccessHash a = ''a'' \<and> Authorization_Token a = ''t'') \<and>
   (\<exists>e. NewUserAccessHash ''a'' = Inl e) \<and> (\<exists>e. NewToken ''t'' = Inl e)"
  using decode_path_unvalidated [where L = sample_lib and c = "answering 200 body_token"
      and auth = "Some sample_auth"
      and resp = "\<lparr>Response_StatusCode = 200, Response_Body = body_token\<rparr>"
      and j = "JObject [(''token'', JString ''abc'')]"
      and tokenResp = "\<lparr>generateFriendTokenResponse_Token = ''abc''\<rparr>" and t = "''abc''"
      and nickname = "[]" and description = "[]" and interests = None and avatar = None
      and resp' = "\<lparr>Response_StatusCode = 0, Response_Body = []\<rparr>" and j' = JNull
      and genResp = zero_generateResponse and h = "[]" and t' = "[]" and i = 0]
    decode_path_unvalidated [where L = sample_lib and c = "answering 200 body_short_credentials"
      and auth = None and resp = "\<lparr>Response_StatusCode = 0, Response_Body = []\<rparr>" and j = JNull
      and tokenResp = zero_generateFriendTokenResponse and t = "[]"
      and nickname = "''bob''" and description = "''hi''" and interests = None and avatar = None
      and resp' = "\<lparr>Response_StatusCode = 200, Response_Body = body_short_credentials\<rparr>"
      and j' = "JObject [(''id'', JInt 2), (''accessHash'', JString ''a''),
                         (''token'', JString ''t'')]" and i = 2
      and genResp = "\<lparr>generateResponse_Id = 2, generateResponse_AccessHash = ''a'',
                       generateResponse_Token = ''t''\<rparr>"
      and h = "''a''" and t' = "''t''"]
  by (simp add: do_def do_request_def sample_lib_def answering_def NewClient_def sample_parse_def
      body_generated_def body_expired_def body_token_def body_short_credentials_def
      unmarshal_generateFriendTokenResponse_object unmarshal_generateResponse_object)

subsection \<open>Round trip of the feed queue\<close>

lemma unmarshal_int64_marshal [simp]: "unmarshal_int64 (marshal_int64 w) cur = Some w"
proof -
  have "- (2 ^ 63) \<le> sint w" and "sint w < 2 ^ 63"
    using sint_ge [of w] sint_lt [of w] by simp_all
  then show ?thesis
    by (simp add: unmarshal_int64_def marshal_int64_def)
qed

lemma those_decode_encode:
  assumes "\<And>x. dec (enc x) zero = Some x"
  shows "those (map (\<lambda>j. dec j zero) (map enc xs)) = Some xs"
  using assms by (induction xs) simp_all

lemma unmarshal_slice_marshal:
  assumes "\<And>x. dec (enc x) zero = Some x"
  shows "unmarshal_slice dec zero (marshal_slice enc s) cur = Some s"
  using those_decode_encode [of dec enc zero, OF assms]
  by (cases s) (simp_all add: unmarshal_slice_def marshal_slice_def)

lemma unmarshal_ptr_marshal:
  assumes "\<And>x v. dec (enc x) v = Some x" and "\<And>x. enc x \<noteq> JNull"
  shows "unmarshal_ptr dec zero (marshal_ptr enc p) cur = Some p"
proof (cases p)
  case None
  then show ?thesis by (simp add: unmarshal_ptr_def marshal_ptr_def)
next
  case (Some x)
  then show ?thesis
    using assms(1) [of x] assms(2) [of x]
    by (cases "enc x") (simp_all add: unmarshal_ptr_def marshal_ptr_def)
qed

lemma unmarshal_string_JString [simp]: "unmarshal_string (JString s) cur = Some s"
  by (simp add: unmarshal_string_def)

lemma unmarshal_FileDescriptor_marshal:
  "unmarshal_FileDescriptor (marshal_FileDescriptor d) v = Some d"
  by (simp add: unmarshal_FileDescriptor_def marshal_FileDescriptor_def unmarshal_struct_def
      field_FileDescriptor_def tag_eval)

lemma unmarshal_UserDetails_marshal:
  "unmarshal_UserDetails (marshal_UserDetails u) v = Some u"
proof -
  have interests: "unmarshal_slice unmarshal_string '''' (marshal_slice JString s) cur = Some s"
    for s cur
    by (rule unmarshal_slice_marshal) simp
  have avatar: "unmarshal_ptr unmarshal_FileDescriptor zero_FileDescriptor
      (marshal_ptr marshal_FileDescriptor p) cur = Some p" for p cur
    by (rule unmarshal_ptr_marshal, rule unmarshal_FileDescriptor_marshal)
      (simp add: marshal_FileDescriptor_def)
  show ?thesis
    by (simp add: unmarshal_UserDetails_def marshal_UserDetails_def unmarshal_struct_def
        field_UserDetails_def tag_eval interests avatar)
qed

lemma unmarshal_UserDetails_slice:
  "unmarshal_slice unmarshal_UserDetails zero_UserDetails
     (marshal_slice marshal_UserDetails s) cur = Some s"
  by (rule unmarshal_slice_marshal) (rule unmarshal_UserDetails_marshal)

lemma unmarshal_FeedEntry_marshal:
  "unmarshal_FeedEntry (marshal_FeedEntry e) v = Some e"
  by (simp add: unmarshal_FeedEntry_def marshal_FeedEntry_def unmarshal_struct_def
      field_FeedEntry_def tag_eval unmarshal_bool_def unmarshal_UserDetails_slice
      unmarshal_UserDetails_marshal)

lemma unmarshal_FeedQueue_marshal:
  "unmarshal_FeedQueue (marshal_FeedQueue q) v = Some q"
proof -
  have entries: "unmarshal_slice unmarshal_FeedEntry zero_FeedEntry
      (marshal_slice marshal_FeedEntry s) cur = Some s" for s cur
    by (rule unmarshal_slice_marshal) (rule unmarshal_FeedEntry_marshal)
  show ?thesis
    by (simp add: unmarshal_FeedQueue_def marshal_FeedQueue_def unmarshal_struct_def
        field_FeedQueue_def tag_eval entries)
qed

text \<open>
  Claim C9. Encoding a \<open>FeedQueue\<close> and decoding the result gives the queue back, entries
  in their order. This holds on JSON values for every queue; through text it holds for
  \<open>json.Unmarshal\<close> and for a decoder whenever the library reads back the value it
  rendered (which is what makes the queue well formed for the library: strings of valid
  UTF-8), and \<open>GetFeedQueue\<close> returns the queue whose encoding the server sent.
\<close>

theorem FeedQueue_round_trip:
  "unmarshal_FeedQueue (marshal_FeedQueue q) zero_FeedQueue = Some q \<and>
   (json_Marshal L (marshal_FeedQueue q) = Inr data \<longrightarrow>
    json_Unmarshal L data = Inr (marshal_FeedQueue q) \<longrightarrow>
      Unmarshal L unmarshal_FeedQueue zero_FeedQueue data = Inr q) \<and>
   (json_Marshal L (marshal_FeedQueue q) = Inr data \<longrightarrow>
    json_Decode L data = Inr (marshal_FeedQueue q) \<longrightarrow>
      Decode L unmarshal_FeedQueue zero_FeedQueue data = Inr q) \<and>
   (do L c ''GET'' ''/feed/queue'' auth None = Inr resp \<longrightarrow>
    Response_StatusCode resp = StatusOK \<longrightarrow>
    json_Decode L (Response_Body resp) = Inr (marshal_FeedQueue q) \<longrightarrow>
      GetFeedQueue L c auth = Inr q)"
  by (simp add: unmarshal_FeedQueue_marshal Unmarshal_def Decode_def GetFeedQueue_def)

theorem FeedQueue_round_trip_witness:
  "json_Marshal sample_lib (marshal_FeedQueue sample_feed) = Inr body_feed \<and>
   Unmarshal sample_lib unmarshal_FeedQueue zero_FeedQueue body_feed = Inr sample_feed \<and>
   Decode sample_lib unmarshal_FeedQueue zero_FeedQueue body_feed = Inr sample_feed \<and>
   GetFeedQueue sample_lib (answering 200 body_feed) None = Inr sample_feed"
proof -
  have tree: "marshal_FeedQueue sample_feed =
      JObject [(''entries'', JArray [JObject
        [(''isExtendedNetwork'', JBool True), (''commonFriends'', JArray []),
         (''details'', JObject
            [(''id'', JInt 7), (''accessHash'', JString ''h''),
             (''nickname'', JString ''bob''), (''description'', JString ''''),
             (''interests'', JArray [JString ''go'']), (''avatar'', JNull)])]])]"
    by (simp add: sample_feed_def marshal_FeedQueue_def marshal_FeedEntry_def
        marshal_UserDetails_def marshal_slice_def marshal_ptr_def marshal_int64_def)
  have rendered: "json_Marshal sample_lib (marshal_FeedQueue sample_feed) = Inr body_feed"
    unfolding tree
    by (simp add: sample_lib_def body_feed_def quote_def decimal_def digits.simps digit_char_def)
  have parsed: "sample_parse body_feed = Inr (marshal_FeedQueue sample_feed)"
    unfolding tree
    by (simp add: sample_parse_def body_feed_def body_expired_def body_token_def
        body_generated_def body_short_credentials_def)
  have lib: "json_Unmarshal sample_lib = sample_parse" "json_Decode sample_lib = sample_parse"
    by (simp_all add: sample_lib_def)
  have sent: "do sample_lib (answering 200 body_feed) ''GET'' ''/feed/queue'' None None =
      Inr \<lparr>Response_StatusCode = 200, Response_Body = body_feed\<rparr>"
    by (simp add: do_def do_request_def sample_lib_def answering_def NewClient_def)
  show ?thesis
    using FeedQueue_round_trip [where q = sample_feed and L = sample_lib and data = body_feed
        and c = "answering 200 body_feed" and auth = None
        and resp = "\<lparr>Response_StatusCode = 200, Response_Body = body_feed\<rparr>"]
      rendered parsed sent
    by (simp add: lib)
qed

end
